theory Spec2Isabelle
  imports Complex_Main
begin

section \<open>Python values, errors and session state\<close>

text \<open>
  The tools of the repository exchange dynamically typed values through the session
  state of the agent framework. A value is \<open>None\<close>, a bool, an int, a float (modelled as
  an exact real), a string, a list, a tuple, a dict with string keys, or an opaque object
  (the segmentation model and its processor), identified by a handle.
\<close>

datatype pyval =
    PyNone
  | PyBool bool
  | PyInt int
  | PyFloat real
  | PyStr string
  | PyList "pyval list"
  | PyTuple "pyval list"
  | PyDict "(string \<times> pyval) list"
  | PyObj nat

datatype py_error =
    TypeError
  | ValueError
  | ValidationError
  | OSError
  | NotFoundError
  | CorruptDataError
  | InvalidScaleError

type_synonym state = "string \<rightharpoonup> pyval"

text \<open>\<open>state.get(key)\<close> and \<open>state.get(key, default)\<close>.\<close>

definition state_get :: "state \<Rightarrow> string \<Rightarrow> pyval" where
  "state_get st k = (case st k of None \<Rightarrow> PyNone | Some v \<Rightarrow> v)"

definition state_get_default :: "state \<Rightarrow> string \<Rightarrow> pyval \<Rightarrow> pyval" where
  "state_get_default st k d = (case st k of None \<Rightarrow> d | Some v \<Rightarrow> v)"

section \<open>Paths\<close>

text \<open>
  \<open>pathlib.Path\<close> on a POSIX system keeps a root (empty, one slash, or exactly two
  slashes) and the list of components. Parsing a string splits it at the slashes and
  drops empty components and single dots; \<open>str\<close> joins the components again and prints
  the empty relative path as a dot.
\<close>

datatype path = Path (path_root: string) (path_parts: "string list")

fun split_on :: "char \<Rightarrow> string \<Rightarrow> string list" where
  "split_on c [] = [[]]"
| "split_on c (x # xs) =
     (if x = c then [] # split_on c xs
      else (case split_on c xs of [] \<Rightarrow> [[x]] | w # ws \<Rightarrow> (x # w) # ws))"

fun join_with :: "char \<Rightarrow> string list \<Rightarrow> string" where
  "join_with c [] = []"
| "join_with c [w] = w"
| "join_with c (w # v # ws) = w @ c # join_with c (v # ws)"

definition splitroot :: "string \<Rightarrow> string \<times> string" where
  "splitroot p =
     (if take 1 p \<noteq> ''/'' then ('''', p)
      else if take 1 (drop 1 p) \<noteq> ''/'' \<or> take 1 (drop 2 p) = ''/'' then (''/'', drop 1 p)
      else (take 2 p, drop 2 p))"

definition parse_path :: "string \<Rightarrow> path" where
  "parse_path s =
     (case splitroot s of
        (r, rel) \<Rightarrow> Path r (filter (\<lambda>x. x \<noteq> [] \<and> x \<noteq> ''.'') (split_on CHR ''/'' rel)))"

definition str_path :: "path \<Rightarrow> string" where
  "str_path p =
     (if path_root p = [] \<and> path_parts p = [] then ''.''
      else path_root p @ join_with CHR ''/'' (path_parts p))"

text \<open>\<open>Path(x)\<close> accepts a string and raises \<open>TypeError\<close> on any other value of the model.\<close>

definition py_Path :: "pyval \<Rightarrow> py_error + path" where
  "py_Path v = (case v of PyStr s \<Rightarrow> Inr (parse_path s) | _ \<Rightarrow> Inl TypeError)"

text \<open>The paths that \<open>Path\<close> can construct.\<close>

definition wf_path :: "path \<Rightarrow> bool" where
  "wf_path p \<longleftrightarrow>
     path_root p \<in> {'''', ''/'', ''//''} \<and>
     (\<forall>w \<in> set (path_parts p). w \<noteq> [] \<and> w \<noteq> ''.'' \<and> CHR ''/'' \<notin> set w)"

section \<open>Analysis dependencies (cellemetry/config/dependencies.py)\<close>

text \<open>
  The dataclass checks no field type, so the fields that are read back from the state
  with \<open>state.get\<close> hold whatever value was stored; \<open>image_path\<close> is the result of
  \<open>Path(...)\<close>.
\<close>

record AnalysisDeps =
  sam_model :: pyval
  sam_processor :: pyval
  image_path :: path
  device :: pyval
  pixel_size_microns :: pyval

definition to_state_dict :: "AnalysisDeps \<Rightarrow> state" where
  "to_state_dict d =
     [''app:sam_model'' \<mapsto> sam_model d,
      ''app:sam_processor'' \<mapsto> sam_processor d,
      ''app:image_path'' \<mapsto> PyStr (str_path (image_path d)),
      ''app:device'' \<mapsto> device d,
      ''app:pixel_size_microns'' \<mapsto> pixel_size_microns d]"

definition get_deps_from_state :: "state \<Rightarrow> py_error + AnalysisDeps" where
  "get_deps_from_state st =
     (case py_Path (state_get st ''app:image_path'') of
        Inl e \<Rightarrow> Inl e
      | Inr p \<Rightarrow>
          Inr \<lparr> sam_model = state_get st ''app:sam_model'',
                sam_processor = state_get st ''app:sam_processor'',
                image_path = p,
                device = state_get_default st ''app:device'' (PyStr ''cpu''),
                pixel_size_microns = state_get st ''app:pixel_size_microns'' \<rparr>)"

section \<open>Statistics schemas (config/schemas.py of both packages)\<close>

text \<open>
  The default of \<open>BasicStats.unit\<close>, byte for byte as the source files hold it in
  UTF-8: \<open>p\<close>, \<open>x\<close>, U+00C2 (bytes C3 82), U+00B2 (bytes C2 B2). The label the
  specification names is \<open>p\<close>, \<open>x\<close>, U+00B2.
\<close>

definition BasicStats_unit_default :: string where
  "BasicStats_unit_default = [CHR ''p'', CHR ''x'', CHR 0xC3, CHR 0x82, CHR 0xC2, CHR 0xB2]"

definition px_squared :: string where
  "px_squared = [CHR ''p'', CHR ''x'', CHR 0xC2, CHR 0xB2]"

record BasicStats =
  count :: int
  area_mean :: real
  area_std :: real
  unit :: string

text \<open>
  \<open>BasicStats(count=c, area_mean=m, area_std=s)\<close> in package cellemetry, where the three
  statistics are required and the unit has a default, and \<open>BasicStats()\<close> in package
  cellemetry_grid, where every field has a default.
\<close>

definition BasicStats_init :: "int \<Rightarrow> real \<Rightarrow> real \<Rightarrow> BasicStats" where
  "BasicStats_init c m s =
     \<lparr> count = c, area_mean = m, area_std = s, unit = BasicStats_unit_default \<rparr>"

definition BasicStats_grid_init :: BasicStats where
  "BasicStats_grid_init =
     \<lparr> count = 0, area_mean = 0, area_std = 0, unit = BasicStats_unit_default \<rparr>"

record SpatialStats =
  avg_nnd :: real
  std_nnd :: real
  density :: real
  avg_neighbor_count :: real
  std_neighbor_count :: real
  dist_unit :: string
  density_unit :: string

text \<open>The same schema in package cellemetry_grid declares six fields.\<close>

record SpatialStats_grid =
  density_grid :: real
  avg_nnd_grid :: real
  std_nnd_grid :: real
  avg_neighbor_count_grid :: real
  dist_unit_grid :: string
  density_unit_grid :: string

definition SpatialStats_grid_init :: SpatialStats_grid where
  "SpatialStats_grid_init =
     \<lparr> density_grid = 0, avg_nnd_grid = 0, std_nnd_grid = 0, avg_neighbor_count_grid = 0,
       dist_unit_grid = ''px'', density_unit_grid = ''N/A'' \<rparr>"

record RelationalStats =
  matched_pairs :: int
  avg_ratio :: real
  std_ratio :: real

text \<open>
  \<open>model_dump()\<close> of a schema instance is the dict of its declared fields, in the order
  of declaration. The export tool of cellemetry_grid passes these dicts to the report
  writer.
\<close>

definition BasicStats_model_dump :: "BasicStats \<Rightarrow> (string \<times> pyval) list" where
  "BasicStats_model_dump b =
     [(''count'', PyInt (count b)),
      (''area_mean'', PyFloat (area_mean b)),
      (''area_std'', PyFloat (area_std b)),
      (''unit'', PyStr (unit b))]"

definition SpatialStats_model_dump :: "SpatialStats \<Rightarrow> (string \<times> pyval) list" where
  "SpatialStats_model_dump s =
     [(''avg_nnd'', PyFloat (avg_nnd s)),
      (''std_nnd'', PyFloat (std_nnd s)),
      (''density'', PyFloat (density s)),
      (''avg_neighbor_count'', PyFloat (avg_neighbor_count s)),
      (''std_neighbor_count'', PyFloat (std_neighbor_count s)),
      (''dist_unit'', PyStr (dist_unit s)),
      (''density_unit'', PyStr (density_unit s))]"

definition SpatialStats_grid_model_dump :: "SpatialStats_grid \<Rightarrow> (string \<times> pyval) list" where
  "SpatialStats_grid_model_dump s =
     [(''density'', PyFloat (density_grid s)),
      (''avg_nnd'', PyFloat (avg_nnd_grid s)),
      (''std_nnd'', PyFloat (std_nnd_grid s)),
      (''avg_neighbor_count'', PyFloat (avg_neighbor_count_grid s)),
      (''dist_unit'', PyStr (dist_unit_grid s)),
      (''density_unit'', PyStr (density_unit_grid s))]"

definition RelationalStats_model_dump :: "RelationalStats \<Rightarrow> (string \<times> pyval) list" where
  "RelationalStats_model_dump r =
     [(''matched_pairs'', PyInt (matched_pairs r)),
      (''avg_ratio'', PyFloat (avg_ratio r)),
      (''std_ratio'', PyFloat (std_ratio r))]"

section \<open>Mask store loader\<close>

text \<open>
  Modelled from the spec: the module \<open>services/analysis.py\<close>, which both packages import
  and whose functions compute every statistic, is missing from the sources. The
  definitions of this section and of the four that follow are written from sections 3, 4
  and 7 of the specification.

  A serialized container holds an array of boolean occupancy regions, one per object, each
  a list of rows, and one bounding box per object. A file on disk either parses into such
  a container or does not.
\<close>

type_synonym mask = "bool list list"

datatype container = Unparsable | MaskArray "mask list" "int list list"

record world =
  files :: "string \<rightharpoonup> container"
  dirs :: "string set"
  mkdir_error :: "string \<Rightarrow> py_error option"

record ObjectMask =
  region :: mask
  area :: nat
  centroid :: "real \<times> real"

record MaskCollection =
  objects :: "ObjectMask list"
  source_file :: string

text \<open>The occupied pixels of a region, as (x, y) with x the column and y the row.\<close>

definition mask_pixels :: "mask \<Rightarrow> (nat \<times> nat) list" where
  "mask_pixels m =
     concat (map (\<lambda>(y, row). map (\<lambda>(x, b). (x, y)) (filter snd (enumerate 0 row)))
               (enumerate 0 m))"

definition rectangular :: "mask \<Rightarrow> bool" where
  "rectangular m = (case m of [] \<Rightarrow> True | r # rs \<Rightarrow> list_all (\<lambda>r'. length r' = length r) rs)"

definition mk_object :: "mask \<Rightarrow> ObjectMask" where
  "mk_object m =
     (let ps = mask_pixels m; n = length ps
      in \<lparr> region = m, area = n,
           centroid = (real (sum_list (map fst ps)) / real n,
                       real (sum_list (map snd ps)) / real n) \<rparr>)"

text \<open>
  An individual mask is kept when its rows have one length and it occupies at least one
  pixel; the others are dropped with a warning. The centroid and the area are computed
  here, once.
\<close>

definition keep_mask :: "mask \<Rightarrow> bool" where
  "keep_mask m \<longleftrightarrow> rectangular m \<and> mask_pixels m \<noteq> []"

definition load_masks :: "world \<Rightarrow> string \<Rightarrow> py_error + MaskCollection" where
  "load_masks w p =
     (case files w p of
        None \<Rightarrow> Inl NotFoundError
      | Some Unparsable \<Rightarrow> Inl CorruptDataError
      | Some (MaskArray ms bs) \<Rightarrow>
          if length bs \<noteq> length ms \<or> \<not> list_all (\<lambda>b. length b = 4) bs
          then Inl CorruptDataError
          else Inr \<lparr> objects = map mk_object (filter keep_mask ms), source_file = p \<rparr>)"

definition load_warnings :: "world \<Rightarrow> string \<Rightarrow> nat" where
  "load_warnings w p =
     (case files w p of
        Some (MaskArray ms bs) \<Rightarrow> length (filter (\<lambda>m. \<not> keep_mask m) ms)
      | _ \<Rightarrow> 0)"

section \<open>Unit converter\<close>

text \<open>
  Modelled from the spec: the shared conversion of \<open>services/analysis.py\<close>, which is
  missing from the sources (section 4.2). With no scale a value passes unchanged; with
  scale s a length is multiplied by s, an area by the square of s, and a density is
  divided by the square of s.
\<close>

datatype kind = Linear | Area | Density

definition convert :: "real \<Rightarrow> kind \<Rightarrow> real option \<Rightarrow> real" where
  "convert v k sc =
     (case sc of
        None \<Rightarrow> v
      | Some s \<Rightarrow> (case k of Linear \<Rightarrow> v * s | Area \<Rightarrow> v * s\<^sup>2 | Density \<Rightarrow> v / s\<^sup>2))"

text \<open>
  The labels in UTF-8. The specification names labels for lengths and areas only; a
  density keeps the default label of the schema.
\<close>

definition micron :: string where
  "micron = [CHR 0xC2, CHR 0xB5, CHR ''m'']"

definition unit_label :: "kind \<Rightarrow> real option \<Rightarrow> string" where
  "unit_label k sc =
     (case k of
        Linear \<Rightarrow> (case sc of None \<Rightarrow> ''px'' | Some s \<Rightarrow> micron)
      | Area \<Rightarrow> (case sc of None \<Rightarrow> px_squared | Some s \<Rightarrow> micron @ [CHR 0xC2, CHR 0xB2])
      | Density \<Rightarrow> ''N/A'')"

text \<open>
  Modelled from the spec: the check of the scale in \<open>services/analysis.py\<close>, missing
  from the sources (sections 3 and 7: an optional positive scalar; a non-positive or
  non-numeric scale is an InvalidScaleError, surfaced at once).
  The scale arrives as whatever value the session state holds. \<open>None\<close> means that no scale
  is supplied; a positive int or float is a scale; every other value is refused.
\<close>

definition parse_scale :: "pyval \<Rightarrow> py_error + real option" where
  "parse_scale v =
     (case v of
        PyNone \<Rightarrow> Inr None
      | PyInt n \<Rightarrow> if 0 < n then Inr (Some (real_of_int n)) else Inl InvalidScaleError
      | PyFloat r \<Rightarrow> if 0 < r then Inr (Some r) else Inl InvalidScaleError
      | _ \<Rightarrow> Inl InvalidScaleError)"

text \<open>
  Mean and population standard deviation; both are 0 on the empty list. The numbers are
  exact reals: a sum or a quotient here does not round as a float of the program does.
\<close>

definition mean :: "real list \<Rightarrow> real" where
  "mean xs = (if xs = [] then 0 else sum_list xs / real (length xs))"

definition pstd :: "real list \<Rightarrow> real" where
  "pstd xs =
     (if xs = [] then 0
      else sqrt (sum_list (map (\<lambda>x. (x - mean xs)\<^sup>2) xs) / real (length xs)))"

section \<open>Morphology calculator\<close>

text \<open>
  Modelled from the spec: \<open>analysis.get_basic_stats\<close>, missing from the sources
  (section 4.3). The count is the size of the collection; mean and population standard
  deviation are taken over the converted areas; an empty collection gives 0 for both.
\<close>

definition analysis_get_basic_stats :: "world \<Rightarrow> string \<Rightarrow> pyval \<Rightarrow> py_error + BasicStats" where
  "analysis_get_basic_stats w filename pixel_scale =
     (case parse_scale pixel_scale of
        Inl e \<Rightarrow> Inl e
      | Inr sc \<Rightarrow>
          (case load_masks w filename of
             Inl e \<Rightarrow> Inl e
           | Inr coll \<Rightarrow>
               let areas = map (\<lambda>ob. convert (real (area ob)) Area sc) (objects coll)
               in Inr \<lparr> count = int (length (objects coll)),
                        area_mean = mean areas,
                        area_std = pstd areas,
                        unit = unit_label Area sc \<rparr>))"

section \<open>Spatial distribution analyzer\<close>

text \<open>
  Modelled from the spec: \<open>analysis.get_spatial_stats\<close>, missing from the sources
  (section 4.4): nearest-neighbour distances between centroids, density over the
  axis-aligned rectangle that the centroids span (0 when that area is 0), and the number
  of other centroids within the neighbour radius.
  The specification asks for a fixed neighbour radius and a fixed minimum overlap but
  names no value for either; they are the two constants of the engine.
\<close>

record engine_config =
  neighbor_radius :: real
  min_overlap :: real

definition euclid :: "real \<times> real \<Rightarrow> real \<times> real \<Rightarrow> real" where
  "euclid a b = sqrt ((fst a - fst b)\<^sup>2 + (snd a - snd b)\<^sup>2)"

definition others :: "'a list \<Rightarrow> nat \<Rightarrow> 'a list" where
  "others xs i = take i xs @ drop (Suc i) xs"

definition minimum :: "real list \<Rightarrow> real" where
  "minimum ds = (case ds of [] \<Rightarrow> 0 | d # ds' \<Rightarrow> fold min ds' d)"

definition maximum :: "real list \<Rightarrow> real" where
  "maximum ds = (case ds of [] \<Rightarrow> 0 | d # ds' \<Rightarrow> fold max ds' d)"

text \<open>Nearest-neighbour distance of each object; undefined below two objects.\<close>

definition nnd_list :: "(real \<times> real) list \<Rightarrow> real list" where
  "nnd_list cs =
     (if length cs < 2 then []
      else map (\<lambda>i. minimum (map (euclid (cs ! i)) (others cs i))) [0..<length cs])"

text \<open>Area of the axis-aligned rectangle spanned by the centroids.\<close>

definition extent_area :: "(real \<times> real) list \<Rightarrow> real" where
  "extent_area cs =
     (maximum (map fst cs) - minimum (map fst cs)) *
     (maximum (map snd cs) - minimum (map snd cs))"

definition neighbor_counts :: "real \<Rightarrow> (real \<times> real) list \<Rightarrow> nat list" where
  "neighbor_counts radius cs =
     map (\<lambda>i. length (filter (\<lambda>c. euclid (cs ! i) c \<le> radius) (others cs i))) [0..<length cs]"

definition analysis_get_spatial_stats ::
  "engine_config \<Rightarrow> world \<Rightarrow> string \<Rightarrow> pyval \<Rightarrow> py_error + SpatialStats" where
  "analysis_get_spatial_stats cfg w filename pixel_scale =
     (case parse_scale pixel_scale of
        Inl e \<Rightarrow> Inl e
      | Inr sc \<Rightarrow>
          (case load_masks w filename of
             Inl e \<Rightarrow> Inl e
           | Inr coll \<Rightarrow>
               let cs = map centroid (objects coll);
                   nnds = nnd_list cs;
                   ext = extent_area cs;
                   ncs = map real (neighbor_counts (neighbor_radius cfg) cs)
               in Inr \<lparr> avg_nnd = convert (mean nnds) Linear sc,
                        std_nnd = convert (pstd nnds) Linear sc,
                        density = (if cs = [] \<or> ext = 0 then 0
                                   else convert (real (length cs) / ext) Density sc),
                        avg_neighbor_count = mean ncs,
                        std_neighbor_count = pstd ncs,
                        dist_unit = unit_label Linear sc,
                        density_unit = unit_label Density sc \<rparr>))"

section \<open>Relational matcher\<close>

text \<open>
  Modelled from the spec: \<open>analysis.analyze_relationships\<close>, missing from the sources
  (section 4.5), with A the reference population (cells) and B the target (nuclei).
  The overlap ratio of a target object against a reference object is the number of
  pixels they share divided by the area of the target.
\<close>

definition overlap :: "mask \<Rightarrow> mask \<Rightarrow> nat" where
  "overlap a b = length (filter (\<lambda>p. p \<in> set (mask_pixels a)) (mask_pixels b))"

definition overlap_ratio :: "ObjectMask \<Rightarrow> ObjectMask \<Rightarrow> real" where
  "overlap_ratio a b = real (overlap (region a) (region b)) / real (area b)"

text \<open>Index and value of the first maximum of a list.\<close>

definition argmax :: "real list \<Rightarrow> (nat \<times> real) option" where
  "argmax rs =
     fold (\<lambda>(i, r) best.
             case best of None \<Rightarrow> Some (i, r)
             | Some (j, q) \<Rightarrow> if q < r then Some (i, r) else Some (j, q))
          (enumerate 0 rs) None"

text \<open>
  A candidate is (index in B, index in A, ratio): the reference object of maximum overlap
  for that target, kept when the ratio exceeds the minimum overlap.
\<close>

type_synonym candidate = "nat \<times> nat \<times> real"

definition candidate_of :: "real \<Rightarrow> ObjectMask list \<Rightarrow> nat \<times> ObjectMask \<Rightarrow> candidate option" where
  "candidate_of thr as jb =
     (case argmax (map (\<lambda>a. overlap_ratio a (snd jb)) as) of
        None \<Rightarrow> None
      | Some (i, r) \<Rightarrow> if thr < r then Some (fst jb, i, r) else None)"

definition candidates :: "real \<Rightarrow> ObjectMask list \<Rightarrow> ObjectMask list \<Rightarrow> candidate list" where
  "candidates thr as bs = List.map_filter (candidate_of thr as) (enumerate 0 bs)"

text \<open>
  Candidates are served by descending ratio; the sort is stable, so equal ratios keep the
  order of the indices in B. A candidate is accepted when its reference object is still
  free.
\<close>

fun greedy :: "nat list \<Rightarrow> candidate list \<Rightarrow> candidate list" where
  "greedy taken [] = []"
| "greedy taken (c # cs) =
     (if fst (snd c) \<in> set taken then greedy taken cs
      else c # greedy (fst (snd c) # taken) cs)"

definition match_objects :: "real \<Rightarrow> ObjectMask list \<Rightarrow> ObjectMask list \<Rightarrow> candidate list" where
  "match_objects thr as bs = greedy [] (sort_key (\<lambda>c. - snd (snd c)) (candidates thr as bs))"

definition analysis_analyze_relationships ::
  "engine_config \<Rightarrow> world \<Rightarrow> string \<Rightarrow> string \<Rightarrow> py_error + RelationalStats" where
  "analysis_analyze_relationships cfg w cell_file nuc_file =
     (case load_masks w cell_file of
        Inl e \<Rightarrow> Inl e
      | Inr A \<Rightarrow>
          (case load_masks w nuc_file of
             Inl e \<Rightarrow> Inl e
           | Inr B \<Rightarrow>
               let ratios = map (\<lambda>c. snd (snd c))
                              (match_objects (min_overlap cfg) (objects A) (objects B))
               in Inr \<lparr> matched_pairs = int (length ratios),
                        avg_ratio = mean ratios,
                        std_ratio = pstd ratios \<rparr>))"

section \<open>Statistics tools (cellemetry/tools/statistics.py)\<close>

text \<open>
  Each tool receives the session state through its tool context. The first two read the
  pixel scale from the state and pass it on as it is; the third does not read the state.
\<close>

definition get_basic_stats :: "world \<Rightarrow> string \<Rightarrow> state \<Rightarrow> py_error + BasicStats" where
  "get_basic_stats w filename st =
     analysis_get_basic_stats w filename (state_get st ''app:pixel_size_microns'')"

definition get_spatial_stats ::
  "engine_config \<Rightarrow> world \<Rightarrow> string \<Rightarrow> state \<Rightarrow> py_error + SpatialStats" where
  "get_spatial_stats cfg w filename st =
     analysis_get_spatial_stats cfg w filename (state_get st ''app:pixel_size_microns'')"

definition get_relationship_stats ::
  "engine_config \<Rightarrow> world \<Rightarrow> string \<Rightarrow> string \<Rightarrow> state \<Rightarrow> py_error + RelationalStats" where
  "get_relationship_stats cfg w cell_file nuc_file st =
     analysis_analyze_relationships cfg w cell_file nuc_file"

text \<open>A scale that is supplied and is not a positive number.\<close>

definition invalid_scale :: "pyval \<Rightarrow> bool" where
  "invalid_scale v =
     (case v of PyNone \<Rightarrow> False | PyInt n \<Rightarrow> n \<le> 0 | PyFloat r \<Rightarrow> r \<le> 0 | _ \<Rightarrow> True)"

section \<open>Dependencies and statistics tool of cellemetry_grid\<close>

record AnalysisDeps_grid =
  sam_model_grid :: pyval
  sam_processor_grid :: pyval
  image_path_grid :: path
  output_dir_grid :: path
  device_grid :: pyval
  pixel_size_microns_grid :: pyval

text \<open>\<open>p / s\<close>: an absolute right operand replaces the left one.\<close>

definition path_join :: "path \<Rightarrow> string \<Rightarrow> path" where
  "path_join p s =
     (let q = parse_path s
      in if path_root q \<noteq> [] then q
         else Path (path_root p) (path_parts p @ path_parts q))"

definition get_output_path :: "AnalysisDeps_grid \<Rightarrow> string \<Rightarrow> string" where
  "get_output_path d filename = str_path (path_join (output_dir_grid d) filename)"

definition to_state_dict_grid :: "AnalysisDeps_grid \<Rightarrow> state" where
  "to_state_dict_grid d =
     [''app:sam_model'' \<mapsto> sam_model_grid d,
      ''app:sam_processor'' \<mapsto> sam_processor_grid d,
      ''app:image_path'' \<mapsto> PyStr (str_path (image_path_grid d)),
      ''app:output_dir'' \<mapsto> PyStr (str_path (output_dir_grid d)),
      ''app:device'' \<mapsto> device_grid d,
      ''app:pixel_size_microns'' \<mapsto> pixel_size_microns_grid d]"

text \<open>
  \<open>mkdir(parents=True, exist_ok=True)\<close>: the operating system either refuses, or the
  directory and its missing ancestors exist afterwards.
\<close>

definition mkdir_parents :: "world \<Rightarrow> path \<Rightarrow> py_error option \<times> world" where
  "mkdir_parents w p =
     (case mkdir_error w (str_path p) of
        Some e \<Rightarrow> (Some e, w)
      | None \<Rightarrow>
          (None,
           w \<lparr> dirs := dirs w \<union>
                  set (map (\<lambda>k. str_path (Path (path_root p) (take k (path_parts p))))
                         [1..<Suc (length (path_parts p))]) \<rparr>))"

definition get_deps_from_state_grid ::
  "world \<Rightarrow> state \<Rightarrow> (py_error + AnalysisDeps_grid) \<times> world" where
  "get_deps_from_state_grid w st =
     (case py_Path (state_get_default st ''app:output_dir'' (PyStr ''.'')) of
        Inl e \<Rightarrow> (Inl e, w)
      | Inr out_dir \<Rightarrow>
          (case mkdir_parents w out_dir of
             (Some e, w') \<Rightarrow> (Inl e, w')
           | (None, w') \<Rightarrow>
               (case py_Path (state_get st ''app:image_path'') of
                  Inl e \<Rightarrow> (Inl e, w')
                | Inr p \<Rightarrow>
                    (Inr \<lparr> sam_model_grid = state_get st ''app:sam_model'',
                           sam_processor_grid = state_get st ''app:sam_processor'',
                           image_path_grid = p,
                           output_dir_grid = out_dir,
                           device_grid = state_get_default st ''app:device'' (PyStr ''cpu''),
                           pixel_size_microns_grid = state_get st ''app:pixel_size_microns'' \<rparr>,
                     w'))))"

text \<open>
  Assigning to a field of a schema instance runs no validation, so each field of
  \<open>ComprehensiveStats\<close> holds what the analysis service returned.
\<close>

record ComprehensiveStats =
  cell_stats :: "BasicStats option"
  nuclei_stats :: "BasicStats option"
  spatial_stats :: "SpatialStats option"
  relational_stats :: "RelationalStats option"

definition ComprehensiveStats_init :: ComprehensiveStats where
  "ComprehensiveStats_init =
     \<lparr> cell_stats = None, nuclei_stats = None, spatial_stats = None, relational_stats = None \<rparr>"

text \<open>An optional file name counts as given when it is neither \<open>None\<close> nor empty.\<close>

definition truthy :: "string option \<Rightarrow> bool" where
  "truthy f = (case f of None \<Rightarrow> False | Some s \<Rightarrow> s \<noteq> [])"

definition bind_err :: "py_error + 'a \<Rightarrow> ('a \<Rightarrow> py_error + 'b) \<Rightarrow> py_error + 'b" where
  "bind_err r f = (case r of Inl e \<Rightarrow> Inl e | Inr x \<Rightarrow> f x)"

definition analyze_cells ::
  "engine_config \<Rightarrow> world \<Rightarrow> string option \<Rightarrow> pyval \<Rightarrow> ComprehensiveStats \<Rightarrow>
   py_error + ComprehensiveStats" where
  "analyze_cells cfg w cell_file pixel_scale stats =
     (case cell_file of
        None \<Rightarrow> Inr stats
      | Some f \<Rightarrow>
          if f = [] then Inr stats
          else bind_err (analysis_get_basic_stats w f pixel_scale) (\<lambda>b.
               bind_err (analysis_get_spatial_stats cfg w f pixel_scale) (\<lambda>sp.
               Inr (stats \<lparr> cell_stats := Some b, spatial_stats := Some sp \<rparr>))))"

definition analyze_nuclei ::
  "world \<Rightarrow> string option \<Rightarrow> pyval \<Rightarrow> ComprehensiveStats \<Rightarrow> py_error + ComprehensiveStats" where
  "analyze_nuclei w nuc_file pixel_scale stats =
     (case nuc_file of
        None \<Rightarrow> Inr stats
      | Some f \<Rightarrow>
          if f = [] then Inr stats
          else bind_err (analysis_get_basic_stats w f pixel_scale) (\<lambda>b.
               Inr (stats \<lparr> nuclei_stats := Some b \<rparr>)))"

definition analyze_relations ::
  "engine_config \<Rightarrow> world \<Rightarrow> string option \<Rightarrow> string option \<Rightarrow> ComprehensiveStats \<Rightarrow>
   py_error + ComprehensiveStats" where
  "analyze_relations cfg w cell_file nuc_file stats =
     (case (cell_file, nuc_file) of
        (Some c, Some n) \<Rightarrow>
          if c \<noteq> [] \<and> n \<noteq> []
          then bind_err (analysis_analyze_relationships cfg w c n) (\<lambda>r.
               Inr (stats \<lparr> relational_stats := Some r \<rparr>))
          else Inr stats
      | _ \<Rightarrow> Inr stats)"

definition compute_comprehensive_stats ::
  "engine_config \<Rightarrow> world \<Rightarrow> string option \<Rightarrow> string option \<Rightarrow> state \<Rightarrow>
   (py_error + ComprehensiveStats) \<times> world" where
  "compute_comprehensive_stats cfg w cell_file nuc_file st =
     (case get_deps_from_state_grid w st of
        (Inl e, w') \<Rightarrow> (Inl e, w')
      | (Inr deps, w') \<Rightarrow>
          (bind_err (analyze_cells cfg w' cell_file (pixel_size_microns_grid deps)
                       ComprehensiveStats_init) (\<lambda>s1.
           bind_err (analyze_nuclei w' nuc_file (pixel_size_microns_grid deps) s1) (\<lambda>s2.
           analyze_relations cfg w' cell_file nuc_file s2)),
           w'))"

section \<open>Segmentation tool (cellemetry/tools/segmentation.py)\<close>

record BoundingBox =
  ymin :: int
  xmin :: int
  ymax :: int
  xmax :: int

record ComponentRequest =
  entity :: string
  color :: string
  morphology :: string
  bboxes :: "BoundingBox list"

text \<open>
  What the tool calls and does not define: the validating constructor
  \<open>BoundingBox(**b)\<close>, the conversions \<open>int(x)\<close> and \<open>str(x)\<close>, the string methods
  \<open>lower()\<close> and \<open>split()\<close>, which work on the code points of a string and know the
  letters and the white space of Unicode, and the segmentation service
  \<open>sam.execute_segmentation\<close>, whose module is missing from the sources. They are
  parameters of the model; the constructor, \<open>int\<close> and the service may raise.
\<close>

record library =
  BoundingBox_validate :: "(string \<times> pyval) list \<Rightarrow> py_error + BoundingBox"
  py_int :: "pyval \<Rightarrow> py_error + int"
  py_str :: "pyval \<Rightarrow> string"
  py_lower :: "string \<Rightarrow> string"
  py_split :: "string \<Rightarrow> string list"
  execute_segmentation :: "AnalysisDeps \<Rightarrow> ComponentRequest \<Rightarrow> py_error + string"

text \<open>What the tool does to the outside: the lines it prints and the calls of the service.\<close>

record io =
  stdout :: "string list"
  sam_calls :: "(AnalysisDeps \<times> ComponentRequest) list"

text \<open>A sequence of four values, read as ymin, xmin, ymax, xmax.\<close>

definition bbox_of_seq :: "library \<Rightarrow> pyval list \<Rightarrow> py_error + BoundingBox" where
  "bbox_of_seq lib b =
     bind_err (py_int lib (b ! 0)) (\<lambda>y0.
     bind_err (py_int lib (b ! 1)) (\<lambda>x0.
     bind_err (py_int lib (b ! 2)) (\<lambda>y1.
     bind_err (py_int lib (b ! 3)) (\<lambda>x1.
     Inr \<lparr> ymin = y0, xmin = x0, ymax = y1, xmax = x1 \<rparr>))))"

text \<open>
  The loop over \<open>bboxes\<close>, with the boxes collected and the lines printed so far. An
  exception of a constructor or a conversion leaves the loop.
\<close>

fun convert_bboxes ::
  "library \<Rightarrow> pyval list \<Rightarrow> BoundingBox list \<Rightarrow> string list \<Rightarrow>
   (py_error + BoundingBox list) \<times> string list" where
  "convert_bboxes lib [] bbox_objects out = (Inr bbox_objects, out)"
| "convert_bboxes lib (PyDict kv # bs) bbox_objects out =
     (case BoundingBox_validate lib kv of
        Inl e \<Rightarrow> (Inl e, out)
      | Inr bb \<Rightarrow> convert_bboxes lib bs (bbox_objects @ [bb]) out)"
| "convert_bboxes lib (PyList b # bs) bbox_objects out =
     (if length b = 4
      then (case bbox_of_seq lib b of
              Inl e \<Rightarrow> (Inl e, out)
            | Inr bb \<Rightarrow> convert_bboxes lib bs (bbox_objects @ [bb]) out)
      else convert_bboxes lib bs bbox_objects
             (out @ [''[Warning] Skipping invalid bbox: '' @ py_str lib (PyList b)]))"
| "convert_bboxes lib (PyTuple b # bs) bbox_objects out =
     (if length b = 4
      then (case bbox_of_seq lib b of
              Inl e \<Rightarrow> (Inl e, out)
            | Inr bb \<Rightarrow> convert_bboxes lib bs (bbox_objects @ [bb]) out)
      else convert_bboxes lib bs bbox_objects
             (out @ [''[Warning] Skipping invalid bbox: '' @ py_str lib (PyTuple b)]))"
| "convert_bboxes lib (b # bs) bbox_objects out =
     convert_bboxes lib bs bbox_objects
       (out @ [''[Warning] Skipping unrecognized bbox format: '' @ py_str lib b])"

text \<open>
  \<open>f"{color}_{entity}".replace(" ", "_").lower()\<close>. A string is its UTF-8 bytes; the
  space is one byte that occurs in no longer sequence, so replacing it byte by byte is
  the replacement of the source.
\<close>

definition safe_label_of :: "library \<Rightarrow> string \<Rightarrow> string \<Rightarrow> string" where
  "safe_label_of lib col ent =
     py_lower lib (map (\<lambda>c. if c = CHR '' '' then CHR ''_'' else c) (col @ ''_'' @ ent))"

text \<open>
  The text before and after the first occurrence of a word, when there is one; then
  \<open>s.split(word)[1]\<close> is the text between the first and the second occurrence.
\<close>

fun find_sub :: "string \<Rightarrow> string \<Rightarrow> (string \<times> string) option" where
  "find_sub word [] = (if word = [] then Some ([], []) else None)"
| "find_sub word (c # cs) =
     (if take (length word) (c # cs) = word then Some ([], drop (length word) (c # cs))
      else (case find_sub word cs of None \<Rightarrow> None | Some (b, a) \<Rightarrow> Some (c # b, a)))"

text \<open>
  The count after the word Found: \<open>int(result_str.split("Found")[1].split()[0])\<close>. It
  stays 0 when the word is absent, and when anything in the attempt raises: no first
  piece after the split at white space, or a piece that is not a number.
\<close>

definition parse_count :: "library \<Rightarrow> string \<Rightarrow> int" where
  "parse_count lib result_str =
     (case find_sub ''Found'' result_str of
        None \<Rightarrow> 0
      | Some (b, a) \<Rightarrow>
          (case py_split lib (case find_sub ''Found'' a of None \<Rightarrow> a | Some (m, r) \<Rightarrow> m) of
             [] \<Rightarrow> 0
           | t # ts \<Rightarrow> (case py_int lib (PyStr t) of Inl e \<Rightarrow> 0 | Inr n \<Rightarrow> n)))"

definition apply_sam3_tool ::
  "library \<Rightarrow> string \<Rightarrow> string \<Rightarrow> string \<Rightarrow> pyval list \<Rightarrow> state \<Rightarrow> io \<Rightarrow>
   (py_error + (string \<times> pyval) list) \<times> io" where
  "apply_sam3_tool lib ent col morph boxes st i =
     (case get_deps_from_state st of
        Inl e \<Rightarrow> (Inl e, i)
      | Inr deps \<Rightarrow>
          (case convert_bboxes lib boxes [] (stdout i) of
             (Inl e, out) \<Rightarrow> (Inl e, i \<lparr> stdout := out \<rparr>)
           | (Inr bbox_objects, out) \<Rightarrow>
               if bbox_objects = []
               then (Inr [(''result'', PyStr ''ERROR: No valid bounding boxes provided''),
                          (''mask_file'', PyNone),
                          (''plot_file'', PyNone),
                          (''count'', PyInt 0),
                          (''label'', PyStr (col @ '' '' @ morph @ '' '' @ ent))],
                     i \<lparr> stdout := out \<rparr>)
               else
                 let request = \<lparr> entity = ent, color = col, morphology = morph,
                                 bboxes = bbox_objects \<rparr>;
                     i' = i \<lparr> stdout := out, sam_calls := sam_calls i @ [(deps, request)] \<rparr>
                 in (case execute_segmentation lib deps request of
                       Inl e \<Rightarrow> (Inl e, i')
                     | Inr result_str \<Rightarrow>
                         (Inr [(''result'', PyStr result_str),
                               (''mask_file'',
                                  PyStr (''/tmp/data_'' @ safe_label_of lib col ent @ ''.npz'')),
                               (''plot_file'',
                                  PyStr (''/tmp/out_'' @ safe_label_of lib col ent @ ''.png'')),
                               (''count'', PyInt (parse_count lib result_str)),
                               (''label'', PyStr (col @ '' '' @ morph @ '' '' @ ent))],
                          i'))))"

text \<open>An element of \<open>bboxes\<close> that the loop turns into a box: a dict, or a list or tuple of
  length 4.\<close>

definition bbox_candidate :: "pyval \<Rightarrow> bool" where
  "bbox_candidate b =
     (case b of PyDict kv \<Rightarrow> True | PyList xs \<Rightarrow> length xs = 4 | PyTuple xs \<Rightarrow> length xs = 4
      | _ \<Rightarrow> False)"

section \<open>A concrete session\<close>

text \<open>
  Three mask files: one cell of three pixels, one nucleus of one pixel inside it, and an
  empty collection; the session state as \<open>main.py\<close> builds it; and a library whose
  segmentation service reports fifteen objects.
\<close>

definition example_world :: world where
  "example_world =
     \<lparr> files =
         [''/tmp/data_green_cell.npz'' \<mapsto> MaskArray [[[True, True], [False, True]]] [[0, 0, 2, 2]],
          ''/tmp/data_blue_nucleus.npz'' \<mapsto> MaskArray [[[False, True], [False, False]]] [[0, 1, 1, 2]],
          ''/tmp/data_red_dot.npz'' \<mapsto> MaskArray [] []],
       dirs = {}, mkdir_error = (\<lambda>p. None) \<rparr>"

definition example_config :: engine_config where
  "example_config = \<lparr> neighbor_radius = 50, min_overlap = 0 \<rparr>"

definition example_state :: state where
  "example_state =
     [''app:sam_model'' \<mapsto> PyObj 0, ''app:sam_processor'' \<mapsto> PyObj 1,
      ''app:image_path'' \<mapsto> PyStr ''105520269.s1.png'', ''app:device'' \<mapsto> PyStr ''cpu'',
      ''app:pixel_size_microns'' \<mapsto> PyNone]"

text \<open>
  On strings of ASCII characters \<open>lower()\<close> lowers the letters A to Z and \<open>split()\<close>
  cuts at the characters 9 to 13 and 28 to 32; the library of the example does this on
  every string.
\<close>

definition ascii_lower :: "char \<Rightarrow> char" where
  "ascii_lower c =
     (if 65 \<le> (of_char c :: nat) \<and> (of_char c :: nat) \<le> 90
      then char_of ((of_char c :: nat) + 32) else c)"

definition ascii_space :: "char \<Rightarrow> bool" where
  "ascii_space c \<longleftrightarrow>
     (9 \<le> (of_char c :: nat) \<and> (of_char c :: nat) \<le> 13) \<or>
     (28 \<le> (of_char c :: nat) \<and> (of_char c :: nat) \<le> 32)"

fun ascii_words :: "string \<Rightarrow> string \<Rightarrow> string list" where
  "ascii_words cur [] = (if cur = [] then [] else [cur])"
| "ascii_words cur (c # cs) =
     (if ascii_space c
      then (if cur = [] then ascii_words [] cs else cur # ascii_words [] cs)
      else ascii_words (cur @ [c]) cs)"

definition example_library :: library where
  "example_library =
     \<lparr> BoundingBox_validate = (\<lambda>kv. Inl ValidationError),
       py_int = (\<lambda>v. case v of PyInt n \<Rightarrow> Inr n
                      | PyStr s \<Rightarrow> (if s = ''15'' then Inr 15 else Inl ValueError)
                      | _ \<Rightarrow> Inl TypeError),
       py_str = (\<lambda>v. ''?''),
       py_lower = map ascii_lower,
       py_split = ascii_words [],
       execute_segmentation = (\<lambda>d r. Inr ''SUCCESS: Found 15 objects. MASK_FILE=/tmp/x'') \<rparr>"

section \<open>Round trip of paths\<close>

lemma split_on_nonempty: "split_on c s \<noteq> []"
  by (induction s) (auto split: list.splits)

lemma split_on_no_sep: "c \<notin> set w \<Longrightarrow> split_on c w = [w]"
  by (induction w) auto

lemma split_on_append_sep:
  "c \<notin> set w \<Longrightarrow> split_on c (w @ c # rest) = w # split_on c rest"
  by (induction w) auto

lemma split_on_join:
  "ws \<noteq> [] \<Longrightarrow> \<forall>w \<in> set ws. c \<notin> set w \<Longrightarrow> split_on c (join_with c ws) = ws"
proof (induction c ws rule: join_with.induct)
  case (1 c)
  then show ?case by simp
next
  case (2 c w)
  then show ?case by (simp add: split_on_no_sep)
next
  case (3 c w v ws)
  then show ?case by (simp add: split_on_append_sep)
qed

lemma filter_parts_id:
  "\<forall>w \<in> set ws. w \<noteq> [] \<and> w \<noteq> ''.'' \<Longrightarrow> filter (\<lambda>x. x \<noteq> [] \<and> x \<noteq> ''.'') ws = ws"
  by (induction ws) auto

lemma components_roundtrip:
  assumes "\<forall>w \<in> set ws. w \<noteq> [] \<and> w \<noteq> ''.'' \<and> CHR ''/'' \<notin> set w"
  shows "filter (\<lambda>x. x \<noteq> [] \<and> x \<noteq> ''.'') (split_on CHR ''/'' (join_with CHR ''/'' ws)) = ws"
proof (cases ws)
  case Nil
  then show ?thesis by simp
next
  case (Cons a as)
  with assms have "split_on CHR ''/'' (join_with CHR ''/'' ws) = ws"
    by (intro split_on_join) auto
  with assms show ?thesis by (simp add: filter_parts_id)
qed

lemma join_with_head:
  "ws \<noteq> [] \<Longrightarrow> hd ws \<noteq> [] \<Longrightarrow> take 1 (join_with c ws) = [hd (hd ws)]"
  by (induction c ws rule: join_with.induct) (auto simp: take_Suc neq_Nil_conv)

lemma parse_str_path:
  assumes "wf_path p"
  shows "parse_path (str_path p) = p"
proof (cases p)
  case (Path r ws)
  from assms Path have r: "r = [] \<or> r = ''/'' \<or> r = ''//''"
    and ws: "\<forall>w \<in> set ws. w \<noteq> [] \<and> w \<noteq> ''.'' \<and> CHR ''/'' \<notin> set w"
    by (auto simp: wf_path_def)
  have rt: "filter (\<lambda>x. x \<noteq> [] \<and> x \<noteq> ''.'')
              (split_on CHR ''/'' (join_with CHR ''/'' ws)) = ws"
    using ws by (rule components_roundtrip)
  have hd_ok: "ws \<noteq> [] \<Longrightarrow> take 1 (join_with CHR ''/'' ws) \<noteq> ''/''"
  proof -
    assume ne: "ws \<noteq> []"
    then have "hd ws \<in> set ws" by simp
    with ws have h: "hd ws \<noteq> []" "CHR ''/'' \<notin> set (hd ws)" by auto
    then have "hd (hd ws) \<noteq> CHR ''/''" by (cases "hd ws") auto
    with join_with_head [OF ne h(1)] show ?thesis by simp
  qed
  show ?thesis
  proof (cases "ws = []")
    case True
    with r Path show ?thesis
      by (auto simp: parse_path_def str_path_def splitroot_def)
  next
    case False
    from r show ?thesis
    proof (elim disjE)
      assume "r = []"
      with False Path rt hd_ok show ?thesis
        by (simp add: parse_path_def str_path_def splitroot_def)
    next
      assume "r = ''/''"
      with False Path rt hd_ok show ?thesis
        by (simp add: parse_path_def str_path_def splitroot_def)
    next
      assume "r = ''//''"
      with False Path rt hd_ok show ?thesis
        by (simp add: parse_path_def str_path_def splitroot_def)
    qed
  qed
qed

lemma split_on_no_sep_in: "w \<in> set (split_on c s) \<Longrightarrow> c \<notin> set w"
proof (induction s arbitrary: w)
  case Nil
  then show ?case by simp
next
  case (Cons x xs)
  then show ?case
    by (cases "split_on c xs") (auto split: if_splits)
qed

lemma splitroot_root: "fst (splitroot s) \<in> {'''', ''/'', ''//''}"
proof (cases s)
  case Nil
  then show ?thesis by (simp add: splitroot_def)
next
  case (Cons a as)
  then show ?thesis by (cases as) (auto simp: splitroot_def)
qed

text \<open>Every path that \<open>Path\<close> builds from a string is well formed.\<close>

lemma wf_parse_path: "wf_path (parse_path s)"
  using splitroot_root [of s]
  by (auto simp: wf_path_def parse_path_def split: prod.splits dest: split_on_no_sep_in)

text \<open>
  C10. Storing the dependencies in the session state and reading them back gives the same
  dependencies: the model, the processor, the device and the pixel size are recovered
  unchanged, and the image path survives the conversion to a string and back, for every
  path that \<open>Path\<close> can hold.
\<close>

theorem deps_state_roundtrip:
  "wf_path (image_path d) \<Longrightarrow> get_deps_from_state (to_state_dict d) = Inr d"
  by (simp add: get_deps_from_state_def to_state_dict_def state_get_def
      state_get_default_def py_Path_def parse_str_path)

theorem deps_state_roundtrip_witness:
  "wf_path (Path ''/'' [''tmp'', ''105520269.s1.png'']) \<and>
   get_deps_from_state
     (to_state_dict \<lparr> sam_model = PyObj 0, sam_processor = PyObj 1,
        image_path = Path ''/'' [''tmp'', ''105520269.s1.png''],
        device = PyStr ''cuda'', pixel_size_microns = PyNone \<rparr>)
   = Inr \<lparr> sam_model = PyObj 0, sam_processor = PyObj 1,
        image_path = Path ''/'' [''tmp'', ''105520269.s1.png''],
        device = PyStr ''cuda'', pixel_size_microns = PyNone \<rparr>"
proof -
  have wf: "wf_path (image_path \<lparr> sam_model = PyObj 0, sam_processor = PyObj 1,
        image_path = Path ''/'' [''tmp'', ''105520269.s1.png''],
        device = PyStr ''cuda'', pixel_size_microns = PyNone \<rparr>)"
    by (simp add: wf_path_def)
  from deps_state_roundtrip [OF wf] wf show ?thesis by simp
qed

section \<open>Schema defaults and fields\<close>

text \<open>
  C7. With no unit given, a \<open>BasicStats\<close> of either package carries the default label
  of its schema. That default is not the label of square pixels: the source holds a
  mis-encoded string with one more character.
\<close>

theorem BasicStats_default_unit_label:
  "unit (BasicStats_init c m s) \<noteq> px_squared \<and> unit BasicStats_grid_init \<noteq> px_squared \<and>
   length (unit (BasicStats_init c m s)) = length px_squared + 2"
  by (simp add: BasicStats_init_def BasicStats_grid_init_def BasicStats_unit_default_def
      px_squared_def)

text \<open>
  C8. The spatial statistics schema of cellemetry_grid has no field for the standard
  deviation of the neighbour counts, while the schema of cellemetry has it: the dict that
  the export tool of cellemetry_grid passes on never holds the key.
\<close>

theorem SpatialStats_grid_lacks_std_neighbor_count:
  "map_of (SpatialStats_grid_model_dump s) ''std_neighbor_count'' = None \<and>
   map_of (SpatialStats_grid_model_dump s) ''avg_neighbor_count'' =
     Some (PyFloat (avg_neighbor_count_grid s)) \<and>
   map_of (SpatialStats_model_dump t) ''std_neighbor_count'' =
     Some (PyFloat (std_neighbor_count t))"
  by (simp add: SpatialStats_grid_model_dump_def SpatialStats_model_dump_def)

section \<open>The concrete session, evaluated\<close>

lemma px_cell: "mask_pixels [[True, True], [False, True]] = [(0, 0), (1, 0), (1, 1)]"
  by (simp add: mask_pixels_def enumerate_eq_zip)

lemma px_nuc: "mask_pixels [[False, True], [False, False]] = [(1, 0)]"
  by (simp add: mask_pixels_def enumerate_eq_zip)

lemma load_cell:
  "load_masks example_world ''/tmp/data_green_cell.npz'' =
     Inr \<lparr> objects = [\<lparr> region = [[True, True], [False, True]], area = 3,
                        centroid = (2/3, 1/3) \<rparr>],
           source_file = ''/tmp/data_green_cell.npz'' \<rparr>"
  by (simp add: example_world_def load_masks_def keep_mask_def rectangular_def px_cell
      mk_object_def Let_def)

lemma load_nuc:
  "load_masks example_world ''/tmp/data_blue_nucleus.npz'' =
     Inr \<lparr> objects = [\<lparr> region = [[False, True], [False, False]], area = 1,
                        centroid = (1, 0) \<rparr>],
           source_file = ''/tmp/data_blue_nucleus.npz'' \<rparr>"
  by (simp add: example_world_def load_masks_def keep_mask_def rectangular_def px_nuc
      mk_object_def Let_def)

lemma load_empty:
  "load_masks example_world ''/tmp/data_red_dot.npz'' =
     Inr \<lparr> objects = [], source_file = ''/tmp/data_red_dot.npz'' \<rparr>"
  by (simp add: example_world_def load_masks_def)

text \<open>The nucleus lies inside the cell: one matched pair, of ratio 1.\<close>

lemma relationship_example:
  "get_relationship_stats example_config example_world
     ''/tmp/data_green_cell.npz'' ''/tmp/data_blue_nucleus.npz'' Map.empty =
   Inr \<lparr> matched_pairs = 1, avg_ratio = 1, std_ratio = 0 \<rparr>"
  by (simp add: get_relationship_stats_def analysis_analyze_relationships_def load_cell load_nuc
      match_objects_def candidates_def candidate_of_def argmax_def overlap_ratio_def overlap_def
      px_cell px_nuc List.map_filter_def mean_def pstd_def enumerate_eq_zip example_config_def)

lemma example_deps:
  "get_deps_from_state example_state =
     Inr \<lparr> sam_model = PyObj 0, sam_processor = PyObj 1,
           image_path = Path [] [''105520269.s1.png''],
           device = PyStr ''cpu'', pixel_size_microns = PyNone \<rparr>"
  by (simp add: get_deps_from_state_def example_state_def state_get_def state_get_default_def
      py_Path_def parse_path_def splitroot_def)

lemma example_deps_grid:
  "get_deps_from_state_grid example_world example_state =
     (Inr \<lparr> sam_model_grid = PyObj 0, sam_processor_grid = PyObj 1,
            image_path_grid = Path [] [''105520269.s1.png''], output_dir_grid = Path [] [],
            device_grid = PyStr ''cpu'', pixel_size_microns_grid = PyNone \<rparr>,
      example_world)"
  by (simp add: get_deps_from_state_grid_def example_state_def state_get_def
      state_get_default_def py_Path_def parse_path_def splitroot_def mkdir_parents_def
      example_world_def)

text \<open>A run of the segmentation tool with one box of four numbers calls the service once.\<close>

lemma segmentation_example:
  "apply_sam3_tool example_library ''cell'' ''green'' ''irregular''
     [PyList [PyInt 0, PyInt 0, PyInt 10, PyInt 10]] example_state
     \<lparr> stdout = [], sam_calls = [] \<rparr> =
   (Inr [(''result'', PyStr ''SUCCESS: Found 15 objects. MASK_FILE=/tmp/x''),
         (''mask_file'', PyStr ''/tmp/data_green_cell.npz''),
         (''plot_file'', PyStr ''/tmp/out_green_cell.png''),
         (''count'', PyInt 15),
         (''label'', PyStr ''green irregular cell'')],
    \<lparr> stdout = [],
      sam_calls = [(\<lparr> sam_model = PyObj 0, sam_processor = PyObj 1,
                      image_path = Path [] [''105520269.s1.png''],
                      device = PyStr ''cpu'', pixel_size_microns = PyNone \<rparr>,
                    \<lparr> entity = ''cell'', color = ''green'', morphology = ''irregular'',
                      bboxes = [\<lparr> ymin = 0, xmin = 0, ymax = 10, xmax = 10 \<rparr>] \<rparr>)] \<rparr>)"
  by (simp add: apply_sam3_tool_def example_deps bbox_of_seq_def bind_err_def
      example_library_def Let_def parse_count_def ascii_space_def safe_label_of_def
      ascii_lower_def)

section \<open>Relational matching\<close>

lemma fold_argmax_bound:
  "fold (\<lambda>(i, r) best.
             case best of None \<Rightarrow> Some (i, r)
             | Some (j, q) \<Rightarrow> if q < r then Some (i, r) else Some (j, q))
          (enumerate n rs) best = Some (i, r) \<Longrightarrow>
   best = Some (i, r) \<or> (n \<le> i \<and> i < n + length rs)"
proof (induction rs arbitrary: n best)
  case Nil
  then show ?case by simp
next
  case (Cons a rs)
  from Cons.prems show ?case
    by (auto dest!: Cons.IH split: option.splits if_splits)
qed

lemma argmax_bound: "argmax rs = Some (i, r) \<Longrightarrow> i < length rs"
  unfolding argmax_def by (drule fold_argmax_bound) simp

lemma candidate_of_bound:
  assumes "candidate_of thr as jb = Some c"
  shows "fst (snd c) < length as"
proof -
  from assms obtain i r where
    am: "argmax (map (\<lambda>a. overlap_ratio a (snd jb)) as) = Some (i, r)"
    and c: "c = (fst jb, i, r)"
    by (auto simp: candidate_of_def split: option.splits if_splits)
  from argmax_bound [OF am] c show ?thesis by simp
qed

lemma candidates_bound:
  "c \<in> set (candidates thr as bs) \<Longrightarrow> fst (snd c) < length as"
  by (auto simp: candidates_def List.map_filter_def intro: candidate_of_bound)

lemma candidates_length: "length (candidates thr as bs) \<le> length bs"
proof -
  have "length (candidates thr as bs) \<le> length (enumerate 0 bs)"
    unfolding candidates_def List.map_filter_def
    by (simp add: le_trans [OF length_filter_le])
  then show ?thesis by simp
qed

lemma greedy_subset: "set (greedy taken cs) \<subseteq> set cs"
  by (induction cs arbitrary: taken) auto

lemma greedy_length: "length (greedy taken cs) \<le> length cs"
  by (induction cs arbitrary: taken) (auto intro: le_SucI)

lemma greedy_fresh: "c \<in> set (greedy taken cs) \<Longrightarrow> fst (snd c) \<notin> set taken"
proof (induction cs arbitrary: taken)
  case Nil
  then show ?case by simp
next
  case (Cons a cs)
  then show ?case by (fastforce split: if_splits)
qed

text \<open>No reference object is matched twice.\<close>

lemma greedy_distinct: "distinct (map (\<lambda>c. fst (snd c)) (greedy taken cs))"
proof (induction cs arbitrary: taken)
  case Nil
  then show ?case by simp
next
  case (Cons a cs)
  then show ?case by (auto dest: greedy_fresh)
qed

lemma distinct_bounded_length:
  assumes "distinct (xs :: nat list)" and "\<forall>x \<in> set xs. x < n"
  shows "length xs \<le> n"
proof -
  from assms(2) have "set xs \<subseteq> {..<n}" by auto
  then have "card (set xs) \<le> card {..<n}" by (intro card_mono) auto
  with assms(1) show ?thesis by (simp add: distinct_card)
qed

lemma match_objects_le_A: "length (match_objects thr as bs) \<le> length as"
proof -
  let ?m = "match_objects thr as bs"
  have d: "distinct (map (\<lambda>c. fst (snd c)) ?m)"
    unfolding match_objects_def by (rule greedy_distinct)
  have "\<forall>x \<in> set (map (\<lambda>c. fst (snd c)) ?m). x < length as"
    using greedy_subset [of "[]" "sort_key (\<lambda>c. - snd (snd c)) (candidates thr as bs)"]
    by (auto simp: match_objects_def dest!: subsetD dest: candidates_bound)
  from distinct_bounded_length [OF d this] show ?thesis by simp
qed

lemma match_objects_le_B: "length (match_objects thr as bs) \<le> length bs"
proof -
  have "length (match_objects thr as bs) \<le> length (candidates thr as bs)"
    unfolding match_objects_def
    using greedy_length [of "[]" "sort_key (\<lambda>c. - snd (snd c)) (candidates thr as bs)"]
    by simp
  with candidates_length [of thr as bs] show ?thesis by linarith
qed

text \<open>
  C1. When both mask files load, the relational statistics call returns a result whose
  number of matched pairs is at least 0 and at most the smaller of the two object counts.
\<close>

theorem matched_pairs_bound:
  "load_masks w cell_file = Inr A \<Longrightarrow> load_masks w nuc_file = Inr B \<Longrightarrow>
   \<exists>r. get_relationship_stats cfg w cell_file nuc_file st = Inr r \<and>
       0 \<le> matched_pairs r \<and>
       matched_pairs r \<le> min (int (length (objects A))) (int (length (objects B)))"
  using match_objects_le_A [of "min_overlap cfg" "objects A" "objects B"]
    match_objects_le_B [of "min_overlap cfg" "objects A" "objects B"]
  by (simp add: get_relationship_stats_def analysis_analyze_relationships_def Let_def)

theorem matched_pairs_bound_witness:
  "load_masks example_world ''/tmp/data_green_cell.npz'' =
     Inr \<lparr> objects = [\<lparr> region = [[True, True], [False, True]], area = 3,
                        centroid = (2/3, 1/3) \<rparr>],
           source_file = ''/tmp/data_green_cell.npz'' \<rparr> \<and>
   load_masks example_world ''/tmp/data_blue_nucleus.npz'' =
     Inr \<lparr> objects = [\<lparr> region = [[False, True], [False, False]], area = 1,
                        centroid = (1, 0) \<rparr>],
           source_file = ''/tmp/data_blue_nucleus.npz'' \<rparr> \<and>
   (\<exists>r. get_relationship_stats example_config example_world ''/tmp/data_green_cell.npz''
          ''/tmp/data_blue_nucleus.npz'' Map.empty = Inr r \<and>
        0 \<le> matched_pairs r \<and> matched_pairs r \<le> 1)"
  using matched_pairs_bound [OF load_cell load_nuc, of example_config Map.empty]
    load_cell load_nuc
  by simp

section \<open>Morphology and spatial statistics\<close>

lemma mean_Nil: "mean [] = 0"
  by (simp add: mean_def)

lemma pstd_Nil: "pstd [] = 0"
  by (simp add: pstd_def)

lemma mean_scale: "mean (map (\<lambda>x. f x * c) xs) = mean (map f xs) * c"
  by (simp add: mean_def sum_list_mult_const)

lemma invalid_scale_parse: "invalid_scale v \<Longrightarrow> parse_scale v = Inl InvalidScaleError"
  by (cases v) (auto simp: invalid_scale_def parse_scale_def)

text \<open>
  C2. For a mask file whose collection holds no object, and for every pixel scale (none, or
  a positive number), the basic statistics are count 0, mean area 0 and standard deviation
  0, and every spatial statistic is 0; both calls return.
\<close>

theorem empty_collection_stats:
  "load_masks w p = Inr coll \<Longrightarrow> objects coll = [] \<Longrightarrow>
   parse_scale (state_get st ''app:pixel_size_microns'') = Inr sc \<Longrightarrow>
   get_basic_stats w p st =
     Inr \<lparr> count = 0, area_mean = 0, area_std = 0, unit = unit_label Area sc \<rparr> \<and>
   get_spatial_stats cfg w p st =
     Inr \<lparr> avg_nnd = 0, std_nnd = 0, density = 0, avg_neighbor_count = 0,
           std_neighbor_count = 0, dist_unit = unit_label Linear sc,
           density_unit = unit_label Density sc \<rparr>"
  by (cases sc)
     (simp_all add: get_basic_stats_def get_spatial_stats_def analysis_get_basic_stats_def
      analysis_get_spatial_stats_def mean_Nil pstd_Nil nnd_list_def neighbor_counts_def
      convert_def)

theorem empty_collection_stats_witness:
  "load_masks example_world ''/tmp/data_red_dot.npz'' =
     Inr \<lparr> objects = [], source_file = ''/tmp/data_red_dot.npz'' \<rparr> \<and>
   parse_scale (state_get [''app:pixel_size_microns'' \<mapsto> PyFloat (27/100)]
                  ''app:pixel_size_microns'') = Inr (Some (27/100)) \<and>
   get_basic_stats example_world ''/tmp/data_red_dot.npz''
       [''app:pixel_size_microns'' \<mapsto> PyFloat (27/100)] =
     Inr \<lparr> count = 0, area_mean = 0, area_std = 0, unit = micron @ [CHR 0xC2, CHR 0xB2] \<rparr> \<and>
   get_spatial_stats example_config example_world ''/tmp/data_red_dot.npz''
       [''app:pixel_size_microns'' \<mapsto> PyFloat (27/100)] =
     Inr \<lparr> avg_nnd = 0, std_nnd = 0, density = 0, avg_neighbor_count = 0,
           std_neighbor_count = 0, dist_unit = micron, density_unit = ''N/A'' \<rparr>"
proof -
  have s: "parse_scale (state_get [''app:pixel_size_microns'' \<mapsto> PyFloat (27/100)]
      ''app:pixel_size_microns'') = Inr (Some (27/100))"
    by (simp add: parse_scale_def state_get_def)
  have e: "objects \<lparr> objects = [], source_file = ''/tmp/data_red_dot.npz'' \<rparr> = []"
    by simp
  from empty_collection_stats [OF load_empty e s, of example_config] load_empty s
  show ?thesis by (simp add: unit_label_def)
qed

text \<open>
  In the exact arithmetic of the model, the mean area at a positive scale s is the mean
  area in pixels times the square of s. The statistics of the program are floats, whose
  sums and products round, so this is a fact about the real numbers of the model and not
  about the digits that the program prints.
\<close>

lemma area_mean_scaling_exact:
  "load_masks w p = Inr coll \<Longrightarrow> 0 < s \<Longrightarrow>
   \<exists>r1 r0. get_basic_stats w p (st(''app:pixel_size_microns'' \<mapsto> PyFloat s)) = Inr r1 \<and>
           get_basic_stats w p (st(''app:pixel_size_microns'' \<mapsto> PyNone)) = Inr r0 \<and>
           area_mean r1 = area_mean r0 * s\<^sup>2"
  by (simp add: get_basic_stats_def analysis_get_basic_stats_def state_get_def parse_scale_def
      convert_def mean_scale Let_def)

text \<open>
  C6. When the session state holds a pixel scale that is not a positive number (a number
  at most 0, or a value that is not a number), the basic statistics call and the spatial
  statistics call both fail with InvalidScaleError, whatever the file.
\<close>

theorem invalid_scale_rejected:
  "st ''app:pixel_size_microns'' = Some v \<Longrightarrow> invalid_scale v \<Longrightarrow>
   get_basic_stats w p st = Inl InvalidScaleError \<and>
   get_spatial_stats cfg w p st = Inl InvalidScaleError"
  by (simp add: get_basic_stats_def get_spatial_stats_def analysis_get_basic_stats_def
      analysis_get_spatial_stats_def state_get_def invalid_scale_parse)

theorem invalid_scale_rejected_witness:
  "invalid_scale (PyFloat (- 1)) \<and>
   get_basic_stats example_world ''/tmp/data_green_cell.npz''
     [''app:pixel_size_microns'' \<mapsto> PyFloat (- 1)] = Inl InvalidScaleError \<and>
   get_spatial_stats example_config example_world ''/tmp/data_green_cell.npz''
     [''app:pixel_size_microns'' \<mapsto> PyFloat (- 1)] = Inl InvalidScaleError"
proof -
  have k: "[''app:pixel_size_microns'' \<mapsto> PyFloat (- 1)] ''app:pixel_size_microns'' =
      Some (PyFloat (- 1))"
    by simp
  have v: "invalid_scale (PyFloat (- 1))" by (simp add: invalid_scale_def)
  from invalid_scale_rejected [of "[''app:pixel_size_microns'' \<mapsto> PyFloat (- 1)]"
      "PyFloat (- 1)" example_world "''/tmp/data_green_cell.npz''" example_config] k v
  show ?thesis by simp
qed

section \<open>The statistics tool of cellemetry_grid\<close>

lemma bind_err_Inr: "bind_err r f = Inr y \<Longrightarrow> \<exists>x. r = Inr x \<and> f x = Inr y"
  by (cases r) (auto simp: bind_err_def)

lemma analyze_cells_fields:
  "analyze_cells cfg w cell_file sc s0 = Inr s1 \<Longrightarrow>
   cell_stats s0 = None \<Longrightarrow> spatial_stats s0 = None \<Longrightarrow>
   (cell_stats s1 \<noteq> None \<longleftrightarrow> truthy cell_file) \<and>
   (spatial_stats s1 \<noteq> None \<longleftrightarrow> truthy cell_file) \<and>
   nuclei_stats s1 = nuclei_stats s0 \<and> relational_stats s1 = relational_stats s0"
  by (auto simp: analyze_cells_def bind_err_def truthy_def
      split: option.splits if_splits sum.splits)

lemma analyze_nuclei_fields:
  "analyze_nuclei w nuc_file sc s1 = Inr s2 \<Longrightarrow> nuclei_stats s1 = None \<Longrightarrow>
   (nuclei_stats s2 \<noteq> None \<longleftrightarrow> truthy nuc_file) \<and>
   cell_stats s2 = cell_stats s1 \<and> spatial_stats s2 = spatial_stats s1 \<and>
   relational_stats s2 = relational_stats s1"
  by (auto simp: analyze_nuclei_def bind_err_def truthy_def
      split: option.splits if_splits sum.splits)

lemma analyze_relations_fields:
  "analyze_relations cfg w cell_file nuc_file s2 = Inr s3 \<Longrightarrow> relational_stats s2 = None \<Longrightarrow>
   (relational_stats s3 \<noteq> None \<longleftrightarrow> truthy cell_file \<and> truthy nuc_file) \<and>
   cell_stats s3 = cell_stats s2 \<and> spatial_stats s3 = spatial_stats s2 \<and>
   nuclei_stats s3 = nuclei_stats s2"
  by (auto simp: analyze_relations_def bind_err_def truthy_def
      split: option.splits if_splits sum.splits)

text \<open>Whatever the tool returns has exactly the fields of the files that were given.\<close>

lemma compute_fields:
  assumes "fst (compute_comprehensive_stats cfg w cell_file nuc_file st) = Inr stats"
  shows "(cell_stats stats \<noteq> None \<longleftrightarrow> truthy cell_file) \<and>
     (spatial_stats stats \<noteq> None \<longleftrightarrow> truthy cell_file) \<and>
     (nuclei_stats stats \<noteq> None \<longleftrightarrow> truthy nuc_file) \<and>
     (relational_stats stats \<noteq> None \<longleftrightarrow> truthy cell_file \<and> truthy nuc_file)"
proof -
  obtain r w' where g: "get_deps_from_state_grid w st = (r, w')"
    by (cases "get_deps_from_state_grid w st") auto
  with assms obtain deps where r: "r = Inr deps"
    by (cases r) (simp_all add: compute_comprehensive_stats_def)
  from assms g r have
    b: "bind_err (analyze_cells cfg w' cell_file (pixel_size_microns_grid deps)
                       ComprehensiveStats_init) (\<lambda>s1.
           bind_err (analyze_nuclei w' nuc_file (pixel_size_microns_grid deps) s1) (\<lambda>s2.
           analyze_relations cfg w' cell_file nuc_file s2)) = Inr stats"
    by (simp add: compute_comprehensive_stats_def)
  from bind_err_Inr [OF b] obtain s1 where
    s1: "analyze_cells cfg w' cell_file (pixel_size_microns_grid deps)
           ComprehensiveStats_init = Inr s1"
    and b2: "bind_err (analyze_nuclei w' nuc_file (pixel_size_microns_grid deps) s1) (\<lambda>s2.
           analyze_relations cfg w' cell_file nuc_file s2) = Inr stats"
    by auto
  from bind_err_Inr [OF b2] obtain s2 where
    s2: "analyze_nuclei w' nuc_file (pixel_size_microns_grid deps) s1 = Inr s2"
    and s3: "analyze_relations cfg w' cell_file nuc_file s2 = Inr stats"
    by auto
  have f1: "(cell_stats s1 \<noteq> None \<longleftrightarrow> truthy cell_file) \<and>
   (spatial_stats s1 \<noteq> None \<longleftrightarrow> truthy cell_file) \<and>
   nuclei_stats s1 = None \<and> relational_stats s1 = None"
    using analyze_cells_fields [OF s1] by (simp add: ComprehensiveStats_init_def)
  have f2: "(nuclei_stats s2 \<noteq> None \<longleftrightarrow> truthy nuc_file) \<and>
   cell_stats s2 = cell_stats s1 \<and> spatial_stats s2 = spatial_stats s1 \<and>
   relational_stats s2 = relational_stats s1"
    using analyze_nuclei_fields [OF s2] f1 by simp
  have f3: "(relational_stats stats \<noteq> None \<longleftrightarrow> truthy cell_file \<and> truthy nuc_file) \<and>
   cell_stats stats = cell_stats s2 \<and> spatial_stats stats = spatial_stats s2 \<and>
   nuclei_stats stats = nuclei_stats s2"
    using analyze_relations_fields [OF s3] f1 f2 by simp
  from f1 f2 f3 show ?thesis by simp
qed

text \<open>
  The tool returns when the dependencies can be read from the state, the pixel scale is
  none or a positive number, and every file that is given loads.
\<close>

lemma compute_returns:
  assumes d: "get_deps_from_state_grid w st = (Inr deps, w')"
    and sc: "parse_scale (pixel_size_microns_grid deps) = Inr sc"
    and c: "truthy cell_file \<Longrightarrow> \<exists>A. load_masks w' (the cell_file) = Inr A"
    and n: "truthy nuc_file \<Longrightarrow> \<exists>B. load_masks w' (the nuc_file) = Inr B"
  shows "\<exists>stats. fst (compute_comprehensive_stats cfg w cell_file nuc_file st) = Inr stats"
proof -
  have 1: "\<exists>s1. analyze_cells cfg w' cell_file (pixel_size_microns_grid deps) s0 = Inr s1"
    for s0
    using c sc
    by (auto simp: analyze_cells_def bind_err_def truthy_def analysis_get_basic_stats_def
        analysis_get_spatial_stats_def Let_def split: option.splits)
  have 2: "\<exists>s2. analyze_nuclei w' nuc_file (pixel_size_microns_grid deps) s1 = Inr s2"
    for s1
    using n sc
    by (auto simp: analyze_nuclei_def bind_err_def truthy_def analysis_get_basic_stats_def
        Let_def split: option.splits)
  have 3: "\<exists>s3. analyze_relations cfg w' cell_file nuc_file s2 = Inr s3" for s2
    using c n
    by (auto simp: analyze_relations_def bind_err_def truthy_def
        analysis_analyze_relationships_def Let_def split: option.splits)
  from 1 obtain s1 where s1: "analyze_cells cfg w' cell_file (pixel_size_microns_grid deps)
      ComprehensiveStats_init = Inr s1" by blast
  from 2 obtain s2 where
    s2: "analyze_nuclei w' nuc_file (pixel_size_microns_grid deps) s1 = Inr s2"
    by blast
  from 3 obtain s3 where s3: "analyze_relations cfg w' cell_file nuc_file s2 = Inr s3"
    by blast
  show ?thesis
    by (simp add: compute_comprehensive_stats_def d bind_err_def s1 s2 s3)
qed

text \<open>
  C5. In every result that compute_comprehensive_stats returns, the cell statistics and
  the spatial statistics are present exactly when a cell file was given, the nuclei
  statistics exactly when a nuclei file was given, and the relational statistics exactly
  when both were given; every other field is None. The tool does return such a result when
  the dependencies can be read from the state, the pixel scale is none or positive, and
  each given file loads.
\<close>

theorem comprehensive_stats_fields:
  "(fst (compute_comprehensive_stats cfg w cell_file nuc_file st) = Inr stats \<longrightarrow>
      (cell_stats stats \<noteq> None \<longleftrightarrow> truthy cell_file) \<and>
      (spatial_stats stats \<noteq> None \<longleftrightarrow> truthy cell_file) \<and>
      (nuclei_stats stats \<noteq> None \<longleftrightarrow> truthy nuc_file) \<and>
      (relational_stats stats \<noteq> None \<longleftrightarrow> truthy cell_file \<and> truthy nuc_file)) \<and>
   (get_deps_from_state_grid w st = (Inr deps, w') \<and>
    parse_scale (pixel_size_microns_grid deps) = Inr sc \<and>
    (\<forall>f. cell_file = Some f \<and> f \<noteq> [] \<longrightarrow> (\<exists>A. load_masks w' f = Inr A)) \<and>
    (\<forall>f. nuc_file = Some f \<and> f \<noteq> [] \<longrightarrow> (\<exists>B. load_masks w' f = Inr B)) \<longrightarrow>
    (\<exists>s. fst (compute_comprehensive_stats cfg w cell_file nuc_file st) = Inr s))"
proof (intro conjI impI)
  assume "fst (compute_comprehensive_stats cfg w cell_file nuc_file st) = Inr stats"
  from compute_fields [OF this]
  show "cell_stats stats \<noteq> None \<longleftrightarrow> truthy cell_file"
    and "spatial_stats stats \<noteq> None \<longleftrightarrow> truthy cell_file"
    and "nuclei_stats stats \<noteq> None \<longleftrightarrow> truthy nuc_file"
    and "relational_stats stats \<noteq> None \<longleftrightarrow> truthy cell_file \<and> truthy nuc_file"
    by simp_all
next
  assume a: "get_deps_from_state_grid w st = (Inr deps, w') \<and>
    parse_scale (pixel_size_microns_grid deps) = Inr sc \<and>
    (\<forall>f. cell_file = Some f \<and> f \<noteq> [] \<longrightarrow> (\<exists>A. load_masks w' f = Inr A)) \<and>
    (\<forall>f. nuc_file = Some f \<and> f \<noteq> [] \<longrightarrow> (\<exists>B. load_masks w' f = Inr B))"
  show "\<exists>s. fst (compute_comprehensive_stats cfg w cell_file nuc_file st) = Inr s"
  proof (rule compute_returns)
    from a show "get_deps_from_state_grid w st = (Inr deps, w')" by simp
    from a show "parse_scale (pixel_size_microns_grid deps) = Inr sc" by simp
    from a show "truthy cell_file \<Longrightarrow> \<exists>A. load_masks w' (the cell_file) = Inr A"
      by (cases cell_file) (auto simp: truthy_def)
    from a show "truthy nuc_file \<Longrightarrow> \<exists>B. load_masks w' (the nuc_file) = Inr B"
      by (cases nuc_file) (auto simp: truthy_def)
  qed
qed

theorem comprehensive_stats_fields_witness:
  "\<exists>stats. fst (compute_comprehensive_stats example_config example_world
              (Some ''/tmp/data_green_cell.npz'') None example_state) = Inr stats \<and>
           cell_stats stats \<noteq> None \<and> spatial_stats stats \<noteq> None \<and>
           nuclei_stats stats = None \<and> relational_stats stats = None"
proof -
  note T = comprehensive_stats_fields [where cfg = example_config and w = example_world
      and cell_file = "Some ''/tmp/data_green_cell.npz''" and nuc_file = None
      and st = example_state and w' = example_world and sc = None
      and deps = "\<lparr> sam_model_grid = PyObj 0, sam_processor_grid = PyObj 1,
            image_path_grid = Path [] [''105520269.s1.png''], output_dir_grid = Path [] [],
            device_grid = PyStr ''cpu'', pixel_size_microns_grid = PyNone \<rparr>"]
  have "\<exists>s. fst (compute_comprehensive_stats example_config example_world
              (Some ''/tmp/data_green_cell.npz'') None example_state) = Inr s"
    using T [THEN conjunct2] example_deps_grid load_cell by (simp add: parse_scale_def)
  then obtain s where s: "fst (compute_comprehensive_stats example_config example_world
              (Some ''/tmp/data_green_cell.npz'') None example_state) = Inr s" by blast
  from T [where stats = s, THEN conjunct1] s
  have "cell_stats s \<noteq> None \<and> spatial_stats s \<noteq> None \<and>
           nuclei_stats s = None \<and> relational_stats s = None"
    by (simp add: truthy_def)
  with s show ?thesis by blast
qed

section \<open>The segmentation tool without a usable box\<close>

lemma convert_bboxes_skip:
  "list_all (\<lambda>b. \<not> bbox_candidate b) boxes \<Longrightarrow>
   fst (convert_bboxes lib boxes acc out) = Inr acc"
proof (induction lib boxes acc out rule: convert_bboxes.induct)
qed (simp_all add: bbox_candidate_def)

text \<open>
  C9. A call of apply_sam3_tool whose bboxes hold no dict and no list or tuple of length 4
  never calls the segmentation service. The tool reads the dependencies from the session
  state first: when that succeeds the call returns the dict with the result
  ``ERROR: No valid bounding boxes provided'', mask_file None, plot_file None and count 0;
  when it fails the call raises the error of get_deps_from_state and returns no dict.
\<close>

theorem no_valid_bboxes_error:
  "list_all (\<lambda>b. \<not> bbox_candidate b) boxes \<Longrightarrow>
   sam_calls (snd (apply_sam3_tool lib ent col morph boxes st i)) = sam_calls i \<and>
   fst (apply_sam3_tool lib ent col morph boxes st i) =
     (case get_deps_from_state st of
        Inl e \<Rightarrow> Inl e
      | Inr deps \<Rightarrow>
          Inr [(''result'', PyStr ''ERROR: No valid bounding boxes provided''),
               (''mask_file'', PyNone),
               (''plot_file'', PyNone),
               (''count'', PyInt 0),
               (''label'', PyStr (col @ '' '' @ morph @ '' '' @ ent))])"
proof -
  assume b: "list_all (\<lambda>b. \<not> bbox_candidate b) boxes"
  obtain r out where c: "convert_bboxes lib boxes [] (stdout i) = (r, out)"
    by (cases "convert_bboxes lib boxes [] (stdout i)") auto
  with convert_bboxes_skip [OF b, of lib "[]" "stdout i"] have r: "r = Inr []" by simp
  show ?thesis
    by (cases "get_deps_from_state st") (simp_all add: apply_sam3_tool_def c r)
qed

theorem no_valid_bboxes_error_witness:
  "list_all (\<lambda>b. \<not> bbox_candidate b) [PyInt 5, PyList [PyInt 1, PyInt 2], PyStr ''box''] \<and>
   sam_calls (snd (apply_sam3_tool example_library ''cell'' ''green'' ''irregular''
          [PyInt 5, PyList [PyInt 1, PyInt 2], PyStr ''box''] example_state
          \<lparr> stdout = [], sam_calls = [] \<rparr>)) = [] \<and>
   fst (apply_sam3_tool example_library ''cell'' ''green'' ''irregular''
          [PyInt 5, PyList [PyInt 1, PyInt 2], PyStr ''box''] example_state
          \<lparr> stdout = [], sam_calls = [] \<rparr>) =
     Inr [(''result'', PyStr ''ERROR: No valid bounding boxes provided''),
          (''mask_file'', PyNone),
          (''plot_file'', PyNone),
          (''count'', PyInt 0),
          (''label'', PyStr ''green irregular cell'')]"
proof -
  have b: "list_all (\<lambda>b. \<not> bbox_candidate b)
      [PyInt 5, PyList [PyInt 1, PyInt 2], PyStr ''box'']"
    by (simp add: bbox_candidate_def)
  from no_valid_bboxes_error [OF b, of example_library "''cell''" "''green''"
      "''irregular''" example_state "\<lparr> stdout = [], sam_calls = [] \<rparr>"] b
  show ?thesis by (simp add: example_deps)
qed

text \<open>
  With no image path in the session state the same call returns no dict: reading the
  dependencies raises TypeError before the boxes are looked at.
\<close>

theorem no_valid_bboxes_missing_image_path:
  "fst (apply_sam3_tool example_library ''cell'' ''green'' ''irregular'' []
          [''app:device'' \<mapsto> PyStr ''cpu''] \<lparr> stdout = [], sam_calls = [] \<rparr>) = Inl TypeError"
  by (simp add: apply_sam3_tool_def get_deps_from_state_def state_get_def py_Path_def)

section \<open>Scenarios of the specification\<close>

text \<open>Areas 10, 20, 30 and 40 have mean 25; at half a micron per pixel the mean is 6.25.\<close>

lemma mean_scenario:
  "mean [10, 20, 30, 40] = 25 \<and>
   mean (map (\<lambda>a. convert a Area (Some (1/2))) [10, 20, 30, 40]) = 25/4"
  by (simp add: mean_def convert_def power2_eq_square)

text \<open>Their population variance is 125, so the standard deviation is its square root.\<close>

lemma pstd_scenario: "pstd [10, 20, 30, 40] = sqrt 125"
  by (simp add: pstd_def mean_def power2_eq_square)

lemma mean_nonneg: "\<forall>x \<in> set xs. 0 \<le> x \<Longrightarrow> 0 \<le> mean xs"
  by (simp add: mean_def sum_list_nonneg)

lemma pstd_nonneg: "0 \<le> pstd xs"
  by (auto simp: pstd_def intro!: divide_nonneg_nonneg sum_list_nonneg)

text \<open>
  In the modelled service the mean and the standard deviation of the neighbour counts are
  never negative.
\<close>

lemma neighbor_statistics_nonneg:
  assumes "analysis_get_spatial_stats cfg w p v = Inr r"
  shows "0 \<le> avg_neighbor_count r \<and> 0 \<le> std_neighbor_count r"
proof -
  from assms obtain ncs :: "nat list" where
    "avg_neighbor_count r = mean (map real ncs)" "std_neighbor_count r = pstd (map real ncs)"
    by (auto simp: analysis_get_spatial_stats_def Let_def split: sum.splits)
  then show ?thesis by (simp add: mean_nonneg pstd_nonneg)
qed

text \<open>
  A collection of one object has no nearest-neighbour distance and spans no area: the
  distances and the density are 0.
\<close>

lemma single_object_spatial:
  assumes "load_masks w p = Inr coll" and "objects coll = [ob]"
    and "parse_scale v = Inr sc"
  shows "\<exists>r. analysis_get_spatial_stats cfg w p v = Inr r \<and>
           avg_nnd r = 0 \<and> std_nnd r = 0 \<and> density r = 0"
  using assms
  by (cases sc)
     (simp_all add: analysis_get_spatial_stats_def Let_def nnd_list_def mean_def pstd_def
      convert_def extent_area_def maximum_def minimum_def)

end
